theory Spec2Isabelle
  imports Complex_Main
begin

section \<open>EnsembleModel: hybrid score and verdict buckets (ml/ensemble.ts)\<close>

text \<open>
  JavaScript numbers are modelled as real numbers: the properties below are about which
  arithmetic expression the code evaluates and which comparison it makes, not about
  rounding.
\<close>

datatype verdict = SAFE | LOW_RISK | MEDIUM | HIGH_THREAT

text \<open>
  \<^verbatim>\<open>calculateHybridScore(regexScore, mlScore) { return (regexScore * 0.40) + (mlScore * 0.60); }\<close>
\<close>

definition calculateHybridScore :: "real \<Rightarrow> real \<Rightarrow> real" where
  "calculateHybridScore regexScore mlScore = (regexScore * 0.40) + (mlScore * 0.60)"

text \<open>
  \<^verbatim>\<open>getVerdict(score)\<close>: three early returns, in the order of the source.
\<close>

definition getVerdict :: "real \<Rightarrow> verdict" where
  "getVerdict score =
     (if score < 0.2 then SAFE
      else if score < 0.4 then LOW_RISK
      else if score < 0.7 then MEDIUM
      else HIGH_THREAT)"

text \<open>The risk ordering of the specification, SAFE < LOW_RISK < MEDIUM < HIGH_THREAT, as a rank.\<close>

fun riskRank :: "verdict \<Rightarrow> nat" where
  "riskRank SAFE = 0"
| "riskRank LOW_RISK = 1"
| "riskRank MEDIUM = 2"
| "riskRank HIGH_THREAT = 3"

section \<open>Errors\<close>

text \<open>Every exception the modelled code can raise is a value; a call that throws returns \<open>Inl\<close>.\<close>

datatype error =
    SyntaxError                       \<comment> \<open>\<^verbatim>\<open>new RegExp\<close> rejects its source or flags\<close>
  | TypeError                         \<comment> \<open>a call on a value that has no such method, a failed string conversion, \<^verbatim>\<open>JSON.stringify\<close> refusing its argument\<close>
  | InvalidStateName string           \<comment> \<open>\<^verbatim>\<open>Invalid state name: ${name}\<close>\<close>
  | IllegalTransition string string   \<comment> \<open>\<^verbatim>\<open>Illegal transition: ${from} -> ${to}\<close>\<close>
  | MLNotInitialized                  \<comment> \<open>\<^verbatim>\<open>ML not initialized. Call initializeML() first.\<close>\<close>

section \<open>Deception patterns and the regular-expression engine\<close>

text \<open>
  Modelled from the spec: the declaration of \<^verbatim>\<open>IDeceptionHunterPattern\<close> (types.ts) is not part
  of the sources; the code reads the fields \<^verbatim>\<open>type\<close>, \<^verbatim>\<open>regex\<close> (a string of the form
  \<^verbatim>\<open>/source/flags\<close>) and \<^verbatim>\<open>severity\<close>, and the specification gives the severities low, medium
  and high.
\<close>

datatype severity = Low | Medium | High

record IDeceptionHunterPattern =
  type :: string
  regex :: string
  severity :: severity

text \<open>
  The regular-expression engine is the platform's. \<open>compile\<close> is what the constructor does
  with a source and flags that passed the flag check (\<open>None\<close> when the source does not parse);
  \<open>test\<close> is \<^verbatim>\<open>re.test(content)\<close> on a freshly constructed expression (its \<^verbatim>\<open>lastIndex\<close>
  is 0, so the result depends on the expression and the content only).
\<close>

record 're RegExpEngine =
  compile :: "string \<Rightarrow> string \<Rightarrow> 're option"
  test :: "'re \<Rightarrow> string \<Rightarrow> bool"

text \<open>
  \<^verbatim>\<open>new RegExp(source, flags)\<close>: in every edition of the language a flag given twice is a
  SyntaxError; every other failure is left to the engine.
\<close>

definition newRegExp :: "'re RegExpEngine \<Rightarrow> string \<Rightarrow> string \<Rightarrow> 're option" where
  "newRegExp eng source flags =
     (if \<not> distinct flags then None else compile eng source flags)"

text \<open>
  The rule literals \<^verbatim>\<open>/^\/(.*)\/([gimsuy]*)$/\<close> (DeceptionHunter) and \<^verbatim>\<open>/^\/(.+)\/([gimuy]*)$/\<close>
  (MLDeceptionHunter), applied with \<^verbatim>\<open>String.match\<close>. No flag character is a slash, so the
  second group starts right after the last slash of the string; the first group is what stands
  between the leading slash and that last slash, and \<^verbatim>\<open>.\<close> matches no line terminator. Strings
  are lists of 8-bit characters, where the line terminators are LF and CR.
\<close>

definition lineTerminator :: "char \<Rightarrow> bool" where
  "lineTerminator c = (c = CHR 0x0A \<or> c = CHR 0x0D)"

definition matchRule :: "string \<Rightarrow> bool \<Rightarrow> string \<Rightarrow> (string \<times> string) option" where
  "matchRule flagChars emptySourceAllowed s =
     (case s of
        [] \<Rightarrow> None
      | c # rest \<Rightarrow>
          if c \<noteq> CHR ''/'' then None
          else
            (let flags = rev (takeWhile (\<lambda>x. x \<noteq> CHR ''/'') (rev rest))
             in case dropWhile (\<lambda>x. x \<noteq> CHR ''/'') (rev rest) of
                  [] \<Rightarrow> None
                | slash # revSource \<Rightarrow>
                    if list_all (\<lambda>x. x \<in> set flagChars) flags
                       \<and> list_all (\<lambda>x. \<not> lineTerminator x) revSource
                       \<and> (emptySourceAllowed \<or> revSource \<noteq> [])
                    then Some (rev revSource, flags)
                    else None))"

section \<open>DeceptionHunter (deception-hunter.ts)\<close>

text \<open>
  \<^verbatim>\<open>analyze\<close>: the loop over the registered patterns, with the list of matches accumulated by
  \<^verbatim>\<open>push\<close>. The constructor call \<^verbatim>\<open>new RegExp(match[1], match[2])\<close> stands in no
  \<^verbatim>\<open>try\<close> block: when it throws, the exception leaves \<^verbatim>\<open>analyze\<close>.
\<close>

fun analyzeLoop ::
  "'re RegExpEngine \<Rightarrow> IDeceptionHunterPattern list \<Rightarrow> string \<Rightarrow> IDeceptionHunterPattern list
     \<Rightarrow> error + IDeceptionHunterPattern list" where
  "analyzeLoop eng [] page_content matched = Inr matched"
| "analyzeLoop eng (pattern # patterns) page_content matched =
     (case matchRule ''gimsuy'' True (regex pattern) of
        None \<Rightarrow> analyzeLoop eng patterns page_content matched
      | Some (source, flags) \<Rightarrow>
          (case newRegExp eng source flags of
             None \<Rightarrow> Inl SyntaxError
           | Some re \<Rightarrow>
               analyzeLoop eng patterns page_content
                 (if test eng re page_content then matched @ [pattern] else matched)))"

definition analyze ::
  "'re RegExpEngine \<Rightarrow> IDeceptionHunterPattern list \<Rightarrow> string
     \<Rightarrow> error + IDeceptionHunterPattern list" where
  "analyze eng patterns page_content = analyzeLoop eng patterns page_content []"

text \<open>The four patterns both constructors register, in this order.\<close>

definition predefinedPatterns :: "IDeceptionHunterPattern list" where
  "predefinedPatterns =
     [\<lparr>type = ''CAPTCHA'', regex = ''/captcha|recaptcha|challenge|verification/i'', severity = High\<rparr>,
      \<lparr>type = ''HONEYPOT'', regex = ''/honeypot|trap|decoy|fake/i'', severity = Medium\<rparr>,
      \<lparr>type = ''PHISHING'', regex = ''/phishing|spoof|clone|fake_login/i'', severity = High\<rparr>,
      \<lparr>type = ''FAKE_ELEMENT'', regex = ''/hidden|invisible|opacity-0|pointer-events-none/i'',
        severity = Medium\<rparr>]"

definition addPattern ::
  "IDeceptionHunterPattern list \<Rightarrow> IDeceptionHunterPattern \<Rightarrow> IDeceptionHunterPattern list" where
  "addPattern patterns pattern = patterns @ [pattern]"

text \<open>
  The specification's reading of one pattern in this scan: \<open>ruleMatches\<close>, its rule parses,
  compiles and matches the content; and \<open>ruleCompiles\<close>, its rule does not make the constructor
  throw.
\<close>

definition ruleCompiles :: "'re RegExpEngine \<Rightarrow> IDeceptionHunterPattern \<Rightarrow> bool" where
  "ruleCompiles eng pattern =
     (case matchRule ''gimsuy'' True (regex pattern) of
        None \<Rightarrow> True
      | Some (source, flags) \<Rightarrow> newRegExp eng source flags \<noteq> None)"

definition ruleMatches :: "'re RegExpEngine \<Rightarrow> string \<Rightarrow> IDeceptionHunterPattern \<Rightarrow> bool" where
  "ruleMatches eng page_content pattern =
     (case matchRule ''gimsuy'' True (regex pattern) of
        None \<Rightarrow> False
      | Some (source, flags) \<Rightarrow>
          (case newRegExp eng source flags of
             None \<Rightarrow> False
           | Some re \<Rightarrow> test eng re page_content))"

section \<open>MLDeceptionHunter.analyze (ml/ml-deception-hunter.ts)\<close>

text \<open>
  The same loop with the body in \<^verbatim>\<open>try { ... } catch (error) { console.error(...) }\<close>: a
  constructor that throws is logged and the loop goes on with the next pattern.
\<close>

fun mlAnalyzeLoop ::
  "'re RegExpEngine \<Rightarrow> IDeceptionHunterPattern list \<Rightarrow> string \<Rightarrow> IDeceptionHunterPattern list
     \<Rightarrow> IDeceptionHunterPattern list" where
  "mlAnalyzeLoop eng [] page_content matched = matched"
| "mlAnalyzeLoop eng (pattern # patterns) page_content matched =
     (case matchRule ''gimuy'' False (regex pattern) of
        None \<Rightarrow> mlAnalyzeLoop eng patterns page_content matched
      | Some (source, flags) \<Rightarrow>
          (case newRegExp eng source flags of
             None \<Rightarrow> mlAnalyzeLoop eng patterns page_content matched
           | Some re \<Rightarrow>
               mlAnalyzeLoop eng patterns page_content
                 (if test eng re page_content then matched @ [pattern] else matched)))"

definition mlAnalyze ::
  "'re RegExpEngine \<Rightarrow> IDeceptionHunterPattern list \<Rightarrow> string \<Rightarrow> IDeceptionHunterPattern list" where
  "mlAnalyze eng patterns page_content = mlAnalyzeLoop eng patterns page_content []"

text \<open>The same reading for this scan, with its own rule literal.\<close>

definition mlRuleMatches :: "'re RegExpEngine \<Rightarrow> string \<Rightarrow> IDeceptionHunterPattern \<Rightarrow> bool" where
  "mlRuleMatches eng page_content pattern =
     (case matchRule ''gimuy'' False (regex pattern) of
        None \<Rightarrow> False
      | Some (source, flags) \<Rightarrow>
          (case newRegExp eng source flags of
             None \<Rightarrow> False
           | Some re \<Rightarrow> test eng re page_content))"

subsection \<open>An engine for rules without metacharacters\<close>

text \<open>
  The four predefined rules are alternatives of literal strings under the flag \<^verbatim>\<open>i\<close>. For such a
  source an engine splits it at the bars, and \<^verbatim>\<open>test\<close> says whether the content contains one of
  the alternatives, letter case set aside under \<^verbatim>\<open>i\<close> (ASCII letters here). This instance of the
  engine is what the concrete scans below run on.
\<close>

fun splitAlternatives :: "string \<Rightarrow> string list" where
  "splitAlternatives [] = [[]]"
| "splitAlternatives (c # cs) =
     (if c = CHR ''|'' then [] # splitAlternatives cs
      else (case splitAlternatives cs of
              [] \<Rightarrow> [[c]]
            | alternative # alternatives \<Rightarrow> (c # alternative) # alternatives))"

fun startsWith :: "string \<Rightarrow> string \<Rightarrow> bool" where
  "startsWith s [] = True"
| "startsWith [] (p # ps) = False"
| "startsWith (c # cs) (p # ps) = (c = p \<and> startsWith cs ps)"

fun containsLiteral :: "string \<Rightarrow> string \<Rightarrow> bool" where
  "containsLiteral [] literal = (literal = [])"
| "containsLiteral (c # cs) literal = (startsWith (c # cs) literal \<or> containsLiteral cs literal)"

definition asciiLower :: "string \<Rightarrow> string" where
  "asciiLower s =
     map (\<lambda>c. let n = (of_char c :: nat) in if 65 \<le> n \<and> n \<le> 90 then char_of (n + 32) else c) s"

definition literalEngine :: "(string list \<times> bool) RegExpEngine" where
  "literalEngine =
     \<lparr>compile = (\<lambda>source flags. Some (splitAlternatives source, CHR ''i'' \<in> set flags)),
      test = (\<lambda>(alternatives, ignoreCase) content.
                list_ex (\<lambda>literal.
                    containsLiteral (if ignoreCase then asciiLower content else content)
                      (if ignoreCase then asciiLower literal else literal))
                  alternatives)\<rparr>"

section \<open>DeceptionHunter.verifyClick\<close>

text \<open>
  A snapshot is a \<^verbatim>\<open>Record<string, unknown>\<close>. What \<^verbatim>\<open>verifyClick\<close> does with one is read its
  \<^verbatim>\<open>url\<close> property, compare two such values with \<^verbatim>\<open>!==\<close>, convert such a value to a string
  inside a template literal (\<^verbatim>\<open>`URL changed from ${before.url} to ${after.url}`\<close>), which throws
  a TypeError on a Symbol or on an object without a usable \<^verbatim>\<open>toString\<close> (\<open>None\<close>), and serialise
  the snapshot with \<^verbatim>\<open>JSON.stringify\<close>, which throws a TypeError on a cyclic structure or a
  BigInt (\<open>None\<close>). These four operations of the platform are the parameters of the model.
\<close>

record ('s, 'u) SnapshotOps =
  url :: "'s \<Rightarrow> 'u"
  strictNotEqual :: "'u \<Rightarrow> 'u \<Rightarrow> bool"
  templateString :: "'u \<Rightarrow> string option"
  stringify :: "'s \<Rightarrow> string option"

text \<open>
  Modelled from the spec: the declaration of \<^verbatim>\<open>IClickVerification\<close> (types.ts) is not part of
  the sources; these are the four fields of the object \<^verbatim>\<open>verifyClick\<close> returns.
\<close>

record 's IClickVerification =
  before_state :: 's
  after_state :: 's
  verified :: bool
  confidence :: real

text \<open>
  The log lines are local to the call and not returned; the first one is built only when the
  \<^verbatim>\<open>url\<close> fields differ, \<^verbatim>\<open>before.url\<close> converted first. The two serialisations are made whatever
  the first comparison gave.
\<close>

definition verifyClick ::
  "('s, 'u) SnapshotOps \<Rightarrow> 's \<Rightarrow> 's \<Rightarrow> error + 's IClickVerification" where
  "verifyClick ops beforeSnap afterSnap =
     (let verified0 = False in
      case (if strictNotEqual ops (url ops beforeSnap) (url ops afterSnap)
            then (case templateString ops (url ops beforeSnap) of
                    None \<Rightarrow> Inl TypeError
                  | Some fromStr \<Rightarrow>
                      (case templateString ops (url ops afterSnap) of
                         None \<Rightarrow> Inl TypeError
                       | Some toStr \<Rightarrow> Inr True))
            else Inr verified0) of
        Inl e \<Rightarrow> Inl e
      | Inr verified1 \<Rightarrow>
          (case stringify ops beforeSnap of
             None \<Rightarrow> Inl TypeError
           | Some beforeStr \<Rightarrow>
               (case stringify ops afterSnap of
                  None \<Rightarrow> Inl TypeError
                | Some afterStr \<Rightarrow>
                    (let verified2 =
                           (if beforeStr \<noteq> afterStr \<and> \<not> verified1 then True else verified1)
                     in Inr \<lparr>before_state = beforeSnap, after_state = afterSnap,
                             verified = verified2,
                             confidence = (if verified2 then 1.0 else 0.0)\<rparr>))))"

subsection \<open>Flat snapshots with string values\<close>

text \<open>
  The snapshots of the specification's scenarios, such as \<^verbatim>\<open>{url: "a"}\<close>: objects whose
  properties all hold strings, given as the list of their properties in enumeration order
  (keys distinct). A missing \<^verbatim>\<open>url\<close> reads as \<^verbatim>\<open>undefined\<close> (\<open>None\<close>); \<^verbatim>\<open>!==\<close> on strings and
  \<^verbatim>\<open>undefined\<close> is inequality; a template literal turns \<^verbatim>\<open>undefined\<close> into the string
  \<^verbatim>\<open>undefined\<close> and leaves a string as it is; \<^verbatim>\<open>JSON.stringify\<close> writes the properties in
  enumeration order, keys and values quoted and escaped, and never throws.
\<close>

definition hexDigit :: "nat \<Rightarrow> char" where
  "hexDigit d = ''0123456789abcdef'' ! (d mod 16)"

definition jsonEscape :: "char \<Rightarrow> string" where
  "jsonEscape c =
     (let n = (of_char c :: nat) in
      if n = 0x08 then [CHR 0x5C, CHR ''b'']
      else if n = 0x09 then [CHR 0x5C, CHR ''t'']
      else if n = 0x0A then [CHR 0x5C, CHR ''n'']
      else if n = 0x0C then [CHR 0x5C, CHR ''f'']
      else if n = 0x0D then [CHR 0x5C, CHR ''r'']
      else if n = 0x22 then [CHR 0x5C, CHR 0x22]
      else if n = 0x5C then [CHR 0x5C, CHR 0x5C]
      else if n < 0x20 then [CHR 0x5C, CHR ''u'', CHR ''0'', CHR ''0'', hexDigit (n div 16), hexDigit n]
      else [c])"

definition jsonQuote :: "string \<Rightarrow> string" where
  "jsonQuote s = [CHR 0x22] @ concat (map jsonEscape s) @ [CHR 0x22]"

fun joinComma :: "string list \<Rightarrow> string" where
  "joinComma [] = []"
| "joinComma [x] = x"
| "joinComma (x # y # ys) = x @ '','' @ joinComma (y # ys)"

definition flatStringify :: "(string \<times> string) list \<Rightarrow> string option" where
  "flatStringify snapshot =
     Some (''{'' @ joinComma (map (\<lambda>(k, v). jsonQuote k @ '':'' @ jsonQuote v) snapshot) @ ''}'')"

definition flatSnapshots :: "((string \<times> string) list, string option) SnapshotOps" where
  "flatSnapshots =
     \<lparr>url = (\<lambda>snapshot. map_of snapshot ''url''),
      strictNotEqual = (\<lambda>a b. a \<noteq> b),
      templateString = (\<lambda>u. Some (case u of None \<Rightarrow> ''undefined'' | Some str \<Rightarrow> str)),
      stringify = flatStringify\<rparr>"

section \<open>MLDeceptionHunter: learned scoring (ml/ml-deception-hunter.ts)\<close>

text \<open>\<^verbatim>\<open>analyzeRegex\<close>: the additive score of the matched patterns, capped at 100.\<close>

fun severityWeight :: "severity \<Rightarrow> real" where
  "severityWeight High = 30"
| "severityWeight Medium = 20"
| "severityWeight Low = 10"

definition analyzeRegex :: "'re RegExpEngine \<Rightarrow> IDeceptionHunterPattern list \<Rightarrow> string \<Rightarrow> real" where
  "analyzeRegex eng patterns page_content =
     (let matched = mlAnalyze eng patterns page_content in
      if length matched = 0 then 0
      else min 100 (fold (\<lambda>pattern score. score + severityWeight (severity pattern)) matched 0))"

text \<open>
  The learned models are TensorFlow objects; a model is represented by what its \<^verbatim>\<open>predict\<close>
  computes. \<^verbatim>\<open>EnsembleModel.predict(cnnScore, lstmScore, regexScore)\<close> feeds the meta-learner
  with the two scores and \<^verbatim>\<open>regexScore / 100\<close>. The preprocessor's two vectorisations are
  parameters as well (their HTML stripping and tensor construction are library calls); the
  calls made to them are recorded, in order.
\<close>

record ('i, 'cv, 'sv) Preprocessing =
  preprocessContent :: "string \<Rightarrow> 'cv"
  sequenceFromInteractions :: "'i list \<Rightarrow> 'sv"

datatype 'i preprocessorCall = PreprocessContent string | SequenceFromInteractions "'i list"

type_synonym metaLearner = "real \<Rightarrow> real \<Rightarrow> real \<Rightarrow> real"

definition ensemblePredict :: "metaLearner \<Rightarrow> real \<Rightarrow> real \<Rightarrow> real \<Rightarrow> real" where
  "ensemblePredict metaLearner cnnScore lstmScore regexScore =
     metaLearner cnnScore lstmScore (regexScore / 100)"

record ('cv, 'sv) MLDeceptionHunter =
  baseHunterPatterns :: "IDeceptionHunterPattern list"
  cnnModel :: "('cv \<Rightarrow> real) option"
  lstmModel :: "('sv \<Rightarrow> real) option"
  ensemble :: "metaLearner option"
  mlEnabled :: bool

text \<open>The models \<^verbatim>\<open>createCNNModel\<close>, \<^verbatim>\<open>createLSTMModel\<close> and \<^verbatim>\<open>createEnsembleModel\<close> return.\<close>

record ('cv, 'sv) CreatedModels =
  createdCNN :: "'cv \<Rightarrow> real"
  createdLSTM :: "'sv \<Rightarrow> real"
  createdEnsemble :: metaLearner

definition newMLDeceptionHunter :: "('cv, 'sv) MLDeceptionHunter" where
  "newMLDeceptionHunter =
     \<lparr>baseHunterPatterns = predefinedPatterns, cnnModel = None, lstmModel = None,
      ensemble = None, mlEnabled = False\<rparr>"

definition initializeML ::
  "('cv, 'sv) CreatedModels \<Rightarrow> ('cv, 'sv) MLDeceptionHunter \<Rightarrow> ('cv, 'sv) MLDeceptionHunter" where
  "initializeML models h =
     (if mlEnabled h then h
      else h\<lparr>cnnModel := Some (createdCNN models), lstmModel := Some (createdLSTM models),
             ensemble := Some (createdEnsemble models), mlEnabled := True\<rparr>)"

definition mlAddPattern ::
  "('cv, 'sv) MLDeceptionHunter \<Rightarrow> IDeceptionHunterPattern \<Rightarrow> ('cv, 'sv) MLDeceptionHunter" where
  "mlAddPattern h pattern = h\<lparr>baseHunterPatterns := baseHunterPatterns h @ [pattern]\<rparr>"

definition dispose :: "('cv, 'sv) MLDeceptionHunter \<Rightarrow> ('cv, 'sv) MLDeceptionHunter" where
  "dispose h = h\<lparr>mlEnabled := False\<rparr>"

text \<open>The hunters a caller can hold: built by the constructor and changed by the public methods.\<close>

inductive hunterReachable :: "('cv, 'sv) MLDeceptionHunter \<Rightarrow> bool" where
  constructed: "hunterReachable newMLDeceptionHunter"
| initialized: "hunterReachable h \<Longrightarrow> hunterReachable (initializeML models h)"
| patternAdded: "hunterReachable h \<Longrightarrow> hunterReachable (mlAddPattern h pattern)"
| disposed: "hunterReachable h \<Longrightarrow> hunterReachable (dispose h)"

text \<open>
  The object \<^verbatim>\<open>analyzeWithML\<close> returns. Its field \<^verbatim>\<open>confidence\<close> is \<open>ml_confidence\<close> here, the
  name \<open>confidence\<close> being the field of \<open>IClickVerification\<close>.
\<close>

record MLAnalysis =
  regex_score :: real
  ml_score :: real
  final_score :: real
  ml_confidence :: real
  verdict :: verdict
  matched_patterns :: "IDeceptionHunterPattern list"
  cnn_score :: real
  lstm_score :: real

definition analyzeWithML ::
  "'re RegExpEngine \<Rightarrow> ('i, 'cv, 'sv) Preprocessing \<Rightarrow> ('cv, 'sv) MLDeceptionHunter \<Rightarrow> string
     \<Rightarrow> 'i list \<Rightarrow> error + (MLAnalysis \<times> 'i preprocessorCall list)" where
  "analyzeWithML eng prep h page_content interaction_history =
     (if \<not> mlEnabled h then Inl MLNotInitialized
      else
        (let regexScore = analyzeRegex eng (baseHunterPatterns h) page_content;
             matchedPatterns = mlAnalyze eng (baseHunterPatterns h) page_content;
             (cnnScore, lstmScore, mlScore, calls) =
               (case (cnnModel h, lstmModel h, ensemble h) of
                  (Some cnn, Some lstm, Some ens) \<Rightarrow>
                    (let contentVector = preprocessContent prep page_content;
                         cnnScore = cnn contentVector;
                         (lstmScore, calls) =
                           (if length interaction_history > 0
                            then (lstm (sequenceFromInteractions prep interaction_history),
                                  [PreprocessContent page_content,
                                   SequenceFromInteractions interaction_history])
                            else (0, [PreprocessContent page_content]))
                     in (cnnScore, lstmScore, ensemblePredict ens cnnScore lstmScore regexScore, calls))
                | _ \<Rightarrow> (0, 0, 0, []));
             finalScore = (regexScore * 0.40) + (mlScore * 100 * 0.60);
             confidence = min 1.0 (finalScore / 100)
         in case ensemble h of
              None \<Rightarrow> Inl TypeError
            | Some ens \<Rightarrow>
                Inr (\<lparr>regex_score = regexScore, ml_score = mlScore * 100, final_score = finalScore,
                      ml_confidence = confidence, verdict = getVerdict confidence,
                      matched_patterns = matchedPatterns, cnn_score = cnnScore * 100,
                      lstm_score = lstmScore * 100\<rparr>, calls)))"

section \<open>MLPreprocessor: the vocabulary (ml/preprocessor.ts)\<close>

text \<open>
  The vocabulary is a \<^verbatim>\<open>Map<string, number>\<close>: a list of entries with distinct keys, in
  insertion order. \<^verbatim>\<open>set\<close> overwrites the value of a key that is present and appends a new
  key; \<^verbatim>\<open>size\<close> is the number of entries. The capacity \<^verbatim>\<open>vocabSize\<close> and the indices are
  natural numbers.

  \<^verbatim>\<open>String.prototype.toLowerCase\<close> folds every cased letter of Unicode. On a string of ASCII
  characters that is the fold of A-Z to a-z; on a string with a character outside ASCII it is
  the platform's conversion, the parameter \<open>unicodeLower\<close> of the model.
\<close>

type_synonym vocabulary = "(string \<times> nat) list"

definition mapHas :: "vocabulary \<Rightarrow> string \<Rightarrow> bool" where
  "mapHas m k = (map_of m k \<noteq> None)"

fun mapSet :: "vocabulary \<Rightarrow> string \<Rightarrow> nat \<Rightarrow> vocabulary" where
  "mapSet [] k v = [(k, v)]"
| "mapSet ((k', v') # m) k v = (if k' = k then (k, v) # m else (k', v') # mapSet m k v)"

definition mapSize :: "vocabulary \<Rightarrow> nat" where
  "mapSize m = length m"

definition toLowerChar :: "char \<Rightarrow> char" where
  "toLowerChar c =
     (let n = (of_char c :: nat) in if 65 \<le> n \<and> n \<le> 90 then char_of (n + 32) else c)"

definition isAscii :: "char \<Rightarrow> bool" where
  "isAscii c = ((of_char c :: nat) < 128)"

definition toLowerCase :: "(string \<Rightarrow> string) \<Rightarrow> string \<Rightarrow> string" where
  "toLowerCase unicodeLower s =
     (if list_all isAscii s then map toLowerChar s else unicodeLower s)"

record MLPreprocessor =
  vocab :: vocabulary
  vocabSize :: nat
  sequenceLength :: nat

definition commonTokens :: "string list" where
  "commonTokens =
     [''captcha'', ''recaptcha'', ''challenge'', ''verification'', ''verify'',
      ''honeypot'', ''trap'', ''decoy'', ''fake'', ''hidden'', ''invisible'',
      ''phishing'', ''spoof'', ''clone'', ''login'', ''submit'', ''click'',
      ''button'', ''form'', ''input'', ''password'', ''username'', ''email'',
      ''suspicious'', ''warning'', ''danger'', ''alert'', ''error'',
      ''script'', ''redirect'', ''popup'', ''overlay'', ''modal'']"

text \<open>
  \<^verbatim>\<open>commonTokens.forEach((token, index) => { this.vocab.set(token.toLowerCase(), index + 1); })\<close>:
  no test against \<^verbatim>\<open>vocabSize\<close>.
\<close>

fun initVocabLoop ::
  "(string \<Rightarrow> string) \<Rightarrow> vocabulary \<Rightarrow> string list \<Rightarrow> nat \<Rightarrow> vocabulary" where
  "initVocabLoop unicodeLower m [] index = m"
| "initVocabLoop unicodeLower m (token # tokens) index =
     initVocabLoop unicodeLower (mapSet m (toLowerCase unicodeLower token) (index + 1)) tokens
       (index + 1)"

definition initializeDefaultVocab ::
  "(string \<Rightarrow> string) \<Rightarrow> MLPreprocessor \<Rightarrow> MLPreprocessor" where
  "initializeDefaultVocab unicodeLower p =
     p\<lparr>vocab := initVocabLoop unicodeLower (vocab p) commonTokens 0\<rparr>"

definition newMLPreprocessor :: "(string \<Rightarrow> string) \<Rightarrow> nat \<Rightarrow> nat \<Rightarrow> MLPreprocessor" where
  "newMLPreprocessor unicodeLower vocabSize' sequenceLength' =
     initializeDefaultVocab unicodeLower
       \<lparr>vocab = [], vocabSize = vocabSize', sequenceLength = sequenceLength'\<rparr>"

text \<open>\<^verbatim>\<open>addTokens\<close>: one step of the \<^verbatim>\<open>forEach\<close>, then the loop.\<close>

definition addToken :: "(string \<Rightarrow> string) \<Rightarrow> MLPreprocessor \<Rightarrow> string \<Rightarrow> MLPreprocessor" where
  "addToken unicodeLower p token =
     (let idx = mapSize (vocab p) + 1 in
      if idx \<le> vocabSize p \<and> \<not> mapHas (vocab p) (toLowerCase unicodeLower token)
      then p\<lparr>vocab := mapSet (vocab p) (toLowerCase unicodeLower token) idx\<rparr>
      else p)"

definition addTokens ::
  "(string \<Rightarrow> string) \<Rightarrow> MLPreprocessor \<Rightarrow> string list \<Rightarrow> MLPreprocessor" where
  "addTokens unicodeLower p tokens = fold (\<lambda>token q. addToken unicodeLower q token) tokens p"

definition getVocab :: "MLPreprocessor \<Rightarrow> vocabulary" where
  "getVocab p = vocab p"

text \<open>
  The bound the specification puts on the vocabulary: no more entries than the capacity, and
  every index between 1 and the capacity.
\<close>

definition vocabWithinCapacity :: "MLPreprocessor \<Rightarrow> bool" where
  "vocabWithinCapacity p =
     (mapSize (vocab p) \<le> vocabSize p
      \<and> list_all (\<lambda>(k, i). 1 \<le> i \<and> i \<le> vocabSize p) (vocab p))"

section \<open>StateMachine (state-machine.ts)\<close>

text \<open>
  The machine hands out references to its objects, so objects live in a store and a reference
  is an index into it: \<open>stateObjects\<close> holds the \<^verbatim>\<open>IState\<close> objects, \<open>dataObjects\<close> the
  \<^verbatim>\<open>Record<string, unknown>\<close> objects that the \<^verbatim>\<open>data\<close> fields refer to, \<open>arrays\<close> the arrays of
  references to \<^verbatim>\<open>IState\<close> objects. Creating an object appends it to its store, so that its
  reference is new. Identifiers and timestamps come from \<^verbatim>\<open>generateId()\<close> and \<^verbatim>\<open>Date.now()\<close>;
  each call that needs them takes them as arguments.

  Modelled from the spec: the declarations of \<^verbatim>\<open>IState\<close> and \<^verbatim>\<open>IStateConfig\<close> (types.ts) are
  not part of the sources; the fields are those the class reads and writes, and the
  specification's data model names the same ones.
\<close>

type_synonym ref = nat

record IState =
  id' :: string
  name :: string
  timestamp :: nat
  data :: ref

record 'v heap =
  stateObjects :: "IState list"
  dataObjects :: "(string \<rightharpoonup> 'v) list"
  arrays :: "ref list list"

record IStateConfig =
  initialState :: string
  configStates :: "string list"
  configTransitions :: "string \<rightharpoonup> string list"

record StateMachine =
  current :: ref
  history :: ref
  states :: "string list"
  transitions :: "string \<rightharpoonup> string list"

definition allocState :: "'v heap \<Rightarrow> IState \<Rightarrow> 'v heap \<times> ref" where
  "allocState h s = (h\<lparr>stateObjects := stateObjects h @ [s]\<rparr>, length (stateObjects h))"

definition allocData :: "'v heap \<Rightarrow> (string \<rightharpoonup> 'v) \<Rightarrow> 'v heap \<times> ref" where
  "allocData h d = (h\<lparr>dataObjects := dataObjects h @ [d]\<rparr>, length (dataObjects h))"

definition allocArray :: "'v heap \<Rightarrow> ref list \<Rightarrow> 'v heap \<times> ref" where
  "allocArray h a = (h\<lparr>arrays := arrays h @ [a]\<rparr>, length (arrays h))"

text \<open>\<^verbatim>\<open>array.push(r)\<close>, in place.\<close>

definition push :: "'v heap \<Rightarrow> ref \<Rightarrow> ref \<Rightarrow> 'v heap" where
  "push h a r = h\<lparr>arrays := (arrays h)[a := arrays h ! a @ [r]]\<rparr>"

text \<open>
  The constructor: the field initialiser creates the empty history array; the body stores the
  two configuration fields, creates the current state with a new empty data object, and pushes
  a copy \<^verbatim>\<open>{ ...this.current }\<close> (a new object with the same four fields, so with the same data
  reference). It checks nothing.
\<close>

definition newStateMachine ::
  "IStateConfig \<Rightarrow> string \<Rightarrow> nat \<Rightarrow> 'v heap \<Rightarrow> 'v heap \<times> StateMachine" where
  "newStateMachine config newId now h =
     (let (h1, hist) = allocArray h [];
          (h2, d) = allocData h1 Map.empty;
          (h3, cur) = allocState h2 \<lparr>id' = newId, name = initialState config, timestamp = now, data = d\<rparr>;
          (h4, copy) = allocState h3 (stateObjects h3 ! cur);
          h5 = push h4 hist copy
      in (h5, \<lparr>current = cur, history = hist, states = configStates config,
                transitions = configTransitions config\<rparr>))"

text \<open>
  \<^verbatim>\<open>setState(name, data = {})\<close>: \<open>None\<close> for an omitted \<^verbatim>\<open>data\<close>, which makes a new empty object.
  The check comes before every write, so a call that throws leaves the machine as it was.
  The call returns \<^verbatim>\<open>newState\<close>, the very object that \<^verbatim>\<open>this.current\<close> now refers to.
\<close>

definition setState ::
  "'v heap \<Rightarrow> StateMachine \<Rightarrow> string \<Rightarrow> ref option \<Rightarrow> string \<Rightarrow> nat
     \<Rightarrow> error + ('v heap \<times> StateMachine \<times> ref)" where
  "setState h m name' dataArg newId now =
     (if name' \<notin> set (states m) then Inl (InvalidStateName name')
      else
        (let (h1, d) = (case dataArg of None \<Rightarrow> allocData h Map.empty | Some r \<Rightarrow> (h, r));
             (h2, newState) = allocState h1 \<lparr>id' = newId, name = name', timestamp = now, data = d\<rparr>;
             m' = m\<lparr>current := newState\<rparr>;
             (h3, copy) = allocState h2 (stateObjects h2 ! newState);
             h4 = push h3 (history m') copy
         in Inr (h4, m', newState)))"

text \<open>
  \<^verbatim>\<open>transition(to, metadata = {})\<close>. \<^verbatim>\<open>this.transitions[from] || []\<close> is the entry of the table, or
  the empty array when there is none. The table is a plain object: where it has no entry of its
  own for a name that \<^verbatim>\<open>Object.prototype\<close> defines, the read finds the inherited property, which
  has no \<^verbatim>\<open>includes\<close>, and the call throws a TypeError. Every path that throws does so before
  any write.
\<close>

definition objectPrototypeProperties :: "string list" where
  "objectPrototypeProperties =
     [''constructor'', ''__defineGetter__'', ''__defineSetter__'', ''hasOwnProperty'',
      ''__lookupGetter__'', ''__lookupSetter__'', ''isPrototypeOf'', ''propertyIsEnumerable'',
      ''toString'', ''valueOf'', ''__proto__'', ''toLocaleString'']"

definition transition ::
  "'v heap \<Rightarrow> StateMachine \<Rightarrow> string \<Rightarrow> ref option \<Rightarrow> string \<Rightarrow> nat
     \<Rightarrow> error + ('v heap \<times> StateMachine \<times> bool)" where
  "transition h m to metadata newId now =
     (let from = name (stateObjects h ! current m) in
      if transitions m from = None \<and> from \<in> set objectPrototypeProperties then Inl TypeError
      else
        (let allowedTransitions = (case transitions m from of None \<Rightarrow> [] | Some a \<Rightarrow> a)
         in if to \<notin> set allowedTransitions then Inl (IllegalTransition from to)
            else
              (let (h1, d) = (case metadata of None \<Rightarrow> allocData h Map.empty | Some r \<Rightarrow> (h, r))
               in case setState h1 m to (Some d) newId now of
                    Inl e \<Rightarrow> Inl e
                  | Inr (h2, m', newState) \<Rightarrow> Inr (h2, m', True))))"

text \<open>\<^verbatim>\<open>getState()\<close> returns \<^verbatim>\<open>{ ...this.current }\<close>; \<^verbatim>\<open>getHistory()\<close> returns \<^verbatim>\<open>[...this.history]\<close>.\<close>

definition getState :: "'v heap \<Rightarrow> StateMachine \<Rightarrow> 'v heap \<times> ref" where
  "getState h m = allocState h (stateObjects h ! current m)"

definition getHistory :: "'v heap \<Rightarrow> StateMachine \<Rightarrow> 'v heap \<times> ref" where
  "getHistory h m = allocArray h (arrays h ! history m)"

definition reset :: "'v heap \<Rightarrow> StateMachine \<Rightarrow> string \<Rightarrow> nat \<Rightarrow> 'v heap \<times> StateMachine" where
  "reset h m newId now =
     (if length (arrays h ! history m) > 0
      then
        (let initialState' = arrays h ! history m ! 0;
             (h1, cur) = allocState h ((stateObjects h ! initialState')\<lparr>timestamp := now, id' := newId\<rparr>);
             (h2, copy) = allocState h1 (stateObjects h1 ! cur);
             (h3, hist) = allocArray h2 [copy]
         in (h3, m\<lparr>current := cur, history := hist\<rparr>))
      else (h, m))"

subsection \<open>Sequences of calls\<close>

text \<open>
  A caller's calls, each with the identifier and the time the platform supplies to it. A call
  that throws is caught by the caller and leaves the machine as it was.
\<close>

datatype call = SetState string "ref option" | Transition string "ref option" | Reset

type_synonym 'v world = "'v heap \<times> StateMachine"

fun step :: "'v world \<Rightarrow> call \<times> string \<times> nat \<Rightarrow> 'v world" where
  "step (h, m) (SetState name' dataArg, newId, now) =
     (case setState h m name' dataArg newId now of
        Inl e \<Rightarrow> (h, m)
      | Inr (h', m', newState) \<Rightarrow> (h', m'))"
| "step (h, m) (Transition to metadata, newId, now) =
     (case transition h m to metadata newId now of
        Inl e \<Rightarrow> (h, m)
      | Inr (h', m', ok) \<Rightarrow> (h', m'))"
| "step (h, m) (Reset, newId, now) = reset h m newId now"

fun succeeds :: "'v world \<Rightarrow> call \<times> string \<times> nat \<Rightarrow> bool" where
  "succeeds (h, m) (SetState name' dataArg, newId, now) =
     (case setState h m name' dataArg newId now of Inl e \<Rightarrow> False | Inr r \<Rightarrow> True)"
| "succeeds (h, m) (Transition to metadata, newId, now) =
     (case transition h m to metadata newId now of Inl e \<Rightarrow> False | Inr r \<Rightarrow> True)"
| "succeeds (h, m) (Reset, newId, now) = True"

definition run :: "'v world \<Rightarrow> (call \<times> string \<times> nat) list \<Rightarrow> 'v world" where
  "run w calls = foldl step w calls"

text \<open>
  The number of successful setState and transition calls in a sequence, counted from the
  last reset in it (from its start when it has none).
\<close>

fun successfulChanges :: "'v world \<Rightarrow> nat \<Rightarrow> (call \<times> string \<times> nat) list \<Rightarrow> nat" where
  "successfulChanges w n [] = n"
| "successfulChanges w n (c # calls) =
     successfulChanges (step w c)
       (if fst c = Reset then 0 else if succeeds w c then Suc n else n) calls"

text \<open>The number of successful setState and transition calls in a sequence, all of them.\<close>

fun successfulCalls :: "'v world \<Rightarrow> (call \<times> string \<times> nat) list \<Rightarrow> nat" where
  "successfulCalls w [] = 0"
| "successfulCalls w (c # calls) =
     (if fst c \<noteq> Reset \<and> succeeds w c then 1 else 0) + successfulCalls (step w c) calls"

subsection \<open>What a caller observes, and what a caller can write\<close>

definition currentState :: "'v world \<Rightarrow> IState" where
  "currentState w = stateObjects (fst w) ! current (snd w)"

definition historyStates :: "'v world \<Rightarrow> IState list" where
  "historyStates w = map (\<lambda>r. stateObjects (fst w) ! r) (arrays (fst w) ! history (snd w))"

text \<open>A state read with its data map, and the machine's current state and history read so.\<close>

definition readState :: "'v heap \<Rightarrow> ref \<Rightarrow> string \<times> string \<times> nat \<times> (string \<rightharpoonup> 'v)" where
  "readState h r =
     (let s = stateObjects h ! r in (id' s, name s, timestamp s, dataObjects h ! data s))"

definition observedCurrent :: "'v world \<Rightarrow> string \<times> string \<times> nat \<times> (string \<rightharpoonup> 'v)" where
  "observedCurrent w = readState (fst w) (current (snd w))"

definition observedHistory :: "'v world \<Rightarrow> (string \<times> string \<times> nat \<times> (string \<rightharpoonup> 'v)) list" where
  "observedHistory w = map (readState (fst w)) (arrays (fst w) ! history (snd w))"

text \<open>
  The writes a caller can make through a reference it holds: assign the fields of a state
  object (\<^verbatim>\<open>s.name = ...\<close>), set a key of a data map (\<^verbatim>\<open>s.data.k = v\<close>), change an array in
  place (\<^verbatim>\<open>a.push(...)\<close>, \<^verbatim>\<open>a.length = 0\<close>, \<^verbatim>\<open>a[0] = ...\<close>).
\<close>

definition writeState :: "'v heap \<Rightarrow> ref \<Rightarrow> IState \<Rightarrow> 'v heap" where
  "writeState h r s = h\<lparr>stateObjects := (stateObjects h)[r := s]\<rparr>"

definition writeData :: "'v heap \<Rightarrow> ref \<Rightarrow> string \<Rightarrow> 'v \<Rightarrow> 'v heap" where
  "writeData h d k v = h\<lparr>dataObjects := (dataObjects h)[d := (dataObjects h ! d)(k \<mapsto> v)]\<rparr>"

definition writeArray :: "'v heap \<Rightarrow> ref \<Rightarrow> ref list \<Rightarrow> 'v heap" where
  "writeArray h a xs = h\<lparr>arrays := (arrays h)[a := xs]\<rparr>"

definition emptyHeap :: "'v heap" where
  "emptyHeap = \<lparr>stateObjects = [], dataObjects = [], arrays = []\<rparr>"

text \<open>
  References that point into the store: what holds of every machine a program can build
  (shown below), and what the reads above rely on.
\<close>

definition wellFormed :: "'v world \<Rightarrow> bool" where
  "wellFormed w =
     (current (snd w) < length (stateObjects (fst w))
      \<and> history (snd w) < length (arrays (fst w))
      \<and> arrays (fst w) ! history (snd w) \<noteq> []
      \<and> list_all (\<lambda>r. r < length (stateObjects (fst w))) (arrays (fst w) ! history (snd w)))"

text \<open>
  What the calls keep true of a machine built from \<open>config\<close>, whose constructor made the data
  object \<open>d0\<close>: the references point into the store, the two configuration fields are those of
  \<open>config\<close>, the first history entry has the initial name and the data object \<open>d0\<close>, which is
  still empty, and the current name is the initial name or a configured state.
\<close>

definition machineInv :: "IStateConfig \<Rightarrow> ref \<Rightarrow> 'v world \<Rightarrow> bool" where
  "machineInv config d0 w =
     (wellFormed w
      \<and> states (snd w) = configStates config
      \<and> transitions (snd w) = configTransitions config
      \<and> name (historyStates w ! 0) = initialState config
      \<and> data (historyStates w ! 0) = d0
      \<and> d0 < length (dataObjects (fst w))
      \<and> dataObjects (fst w) ! d0 = Map.empty
      \<and> (name (currentState w) = initialState config
          \<or> name (currentState w) \<in> set (configStates config)))"

text \<open>
  The configuration of the repository's tests (sin-solver.test.ts, ml-models.test.ts), and
  the machine built from it in an empty store.
\<close>

definition interactionConfig :: IStateConfig where
  "interactionConfig =
     \<lparr>initialState = ''IDLE'',
      configStates = [''IDLE'', ''PENDING'', ''VERIFIED'', ''FAILED''],
      configTransitions =
        [''IDLE'' \<mapsto> [''PENDING''], ''PENDING'' \<mapsto> [''VERIFIED'', ''FAILED'']]\<rparr>"

definition interactionMachine :: "string world" where
  "interactionMachine = newStateMachine interactionConfig ''id-0'' 0 emptyHeap"

section \<open>Properties of EnsembleModel\<close>

text \<open>
  C1, as stated, fails: the function weights its second argument by 0.60 as it is and never
  multiplies it by 100. At regexScore = 75 and mlProbability = 0.85 (both in range) it returns
  30.51, while the claimed value 75*0.40 + 0.85*100*0.60 is 81; the gap is far beyond any
  floating-point tolerance.
\<close>

theorem calculateHybridScore_probability_counterexample:
  "(0::real) \<le> 75 \<and> (75::real) \<le> 100 \<and> (0::real) \<le> 0.85 \<and> (0.85::real) \<le> 1 \<and>
   calculateHybridScore 75 0.85 = 30.51 \<and>
   75 * 0.40 + 0.85 * 100 * 0.60 = (81::real) \<and>
   \<bar>calculateHybridScore 75 0.85 - (75 * 0.40 + 0.85 * 100 * 0.60)\<bar> > 50"
  by (simp add: calculateHybridScore_def)

text \<open>
  C1, amended: the second parameter is the ML score already on the 0..100 scale. Called with
  mlProbability * 100, the function returns regexScore*0.40 + mlProbability*100*0.60, for
  every regexScore and mlProbability (so in particular on [0,100] and [0,1]), and the result
  then lies in [0,100].
\<close>

theorem calculateHybridScore_scaled:
  "calculateHybridScore regexScore (mlProbability * 100)
     = regexScore * 0.40 + mlProbability * 100 * 0.60
   \<and> (0 \<le> regexScore \<and> regexScore \<le> 100 \<and> 0 \<le> mlProbability \<and> mlProbability \<le> 1
        \<longrightarrow> 0 \<le> calculateHybridScore regexScore (mlProbability * 100)
          \<and> calculateHybridScore regexScore (mlProbability * 100) \<le> 100)"
  by (auto simp add: calculateHybridScore_def)

theorem calculateHybridScore_scaled_witness:
  "calculateHybridScore 75 (0.85 * 100) = 81 \<and>
   (0::real) \<le> calculateHybridScore 75 (0.85 * 100) \<and> calculateHybridScore 75 (0.85 * 100) \<le> 100"
  using calculateHybridScore_scaled [of 75 "0.85"] by simp

text \<open>
  C9: getVerdict returns SAFE below 0.2, LOW_RISK on [0.2, 0.4), MEDIUM on [0.4, 0.7) and
  HIGH_THREAT from 0.7 on; hence it is non-decreasing in the score for the risk ordering.
  Both parts hold for every real score, in particular on [0,1].
\<close>

theorem getVerdict_step_function:
  "(score < 0.2 \<longrightarrow> getVerdict score = SAFE) \<and>
   (0.2 \<le> score \<and> score < 0.4 \<longrightarrow> getVerdict score = LOW_RISK) \<and>
   (0.4 \<le> score \<and> score < 0.7 \<longrightarrow> getVerdict score = MEDIUM) \<and>
   (0.7 \<le> score \<longrightarrow> getVerdict score = HIGH_THREAT) \<and>
   (\<forall>score'. score \<le> score' \<longrightarrow> riskRank (getVerdict score) \<le> riskRank (getVerdict score'))"
  by (auto simp add: getVerdict_def)

theorem getVerdict_step_function_witness:
  "getVerdict 0.15 = SAFE \<and> getVerdict 0.2 = LOW_RISK \<and> getVerdict 0.3 = LOW_RISK \<and>
   getVerdict 0.4 = MEDIUM \<and> getVerdict 0.55 = MEDIUM \<and> getVerdict 0.7 = HIGH_THREAT \<and>
   getVerdict 0.85 = HIGH_THREAT \<and>
   (0.3::real) \<le> 0.85 \<and> riskRank (getVerdict 0.3) \<le> riskRank (getVerdict 0.85)"
  using getVerdict_step_function [of "0.15"] getVerdict_step_function [of "0.2"]
    getVerdict_step_function [of "0.3"] getVerdict_step_function [of "0.4"]
    getVerdict_step_function [of "0.55"] getVerdict_step_function [of "0.7"]
    getVerdict_step_function [of "0.85"]
  by simp

section \<open>Properties of the pattern scan\<close>

lemma mlAnalyzeLoop_filter:
  "mlAnalyzeLoop eng patterns page_content matched
     = matched @ filter (mlRuleMatches eng page_content) patterns"
  by (induction patterns arbitrary: matched) (auto simp add: mlRuleMatches_def split: option.splits)

text \<open>
  MLDeceptionHunter.analyze does what the specification asks of the scan: it returns the
  registered patterns that match, in registration order, and a rule that does not compile
  counts as not matching, whatever else is registered.
\<close>

lemma mlAnalyze_filter:
  "mlAnalyze eng patterns page_content = filter (mlRuleMatches eng page_content) patterns"
  by (simp add: mlAnalyze_def mlAnalyzeLoop_filter)

text \<open>
  DeceptionHunter.analyze returns that list only when every registered rule compiles; one
  rule that does not compile, anywhere in the list, and the call throws.
\<close>

lemma analyzeLoop_characterization:
  "analyzeLoop eng patterns page_content matched =
     (if list_all (ruleCompiles eng) patterns
      then Inr (matched @ filter (ruleMatches eng page_content) patterns)
      else Inl SyntaxError)"
  by (induction patterns arbitrary: matched)
     (auto simp add: ruleCompiles_def ruleMatches_def split: option.splits)

lemma analyze_characterization:
  "analyze eng patterns page_content =
     (if list_all (ruleCompiles eng) patterns
      then Inr (filter (ruleMatches eng page_content) patterns)
      else Inl SyntaxError)"
  by (simp add: analyze_def analyzeLoop_characterization)

lemma repeated_flag_rule:
  "matchRule ''gimsuy'' True ''/a/gg'' = Some (''a'', ''gg'')"
  "matchRule ''gimuy'' False ''/a/gg'' = Some (''a'', ''gg'')"
  by (simp_all add: matchRule_def lineTerminator_def)

text \<open>
  C2 fails for DeceptionHunter.analyze. After
  \<^verbatim>\<open>addPattern({type: 'BROKEN', regex: '/a/gg', severity: 'low'})\<close> the rule of the fifth pattern
  parses into source \<^verbatim>\<open>a\<close> and flags \<^verbatim>\<open>gg\<close>, the constructor throws, and \<^verbatim>\<open>analyze\<close> returns no
  list at all, for every content and every engine; MLDeceptionHunter.analyze, on the same
  patterns, returns what it returns without the broken one.
\<close>

theorem analyze_aborts_on_broken_rule:
  "analyze eng
     (addPattern predefinedPatterns \<lparr>type = ''BROKEN'', regex = ''/a/gg'', severity = Low\<rparr>)
     page_content = Inl SyntaxError
   \<and> mlAnalyze eng
       (addPattern predefinedPatterns \<lparr>type = ''BROKEN'', regex = ''/a/gg'', severity = Low\<rparr>)
       page_content = mlAnalyze eng predefinedPatterns page_content"
proof
  show "analyze eng
     (addPattern predefinedPatterns \<lparr>type = ''BROKEN'', regex = ''/a/gg'', severity = Low\<rparr>)
     page_content = Inl SyntaxError"
    by (simp add: analyze_def addPattern_def predefinedPatterns_def matchRule_def
        lineTerminator_def newRegExp_def split: option.splits)
  show "mlAnalyze eng
       (addPattern predefinedPatterns \<lparr>type = ''BROKEN'', regex = ''/a/gg'', severity = Low\<rparr>)
       page_content = mlAnalyze eng predefinedPatterns page_content"
    by (simp add: mlAnalyze_filter addPattern_def mlRuleMatches_def repeated_flag_rule
        newRegExp_def)
qed

theorem analyze_aborts_on_broken_rule_witness:
  "analyze \<lparr>compile = (\<lambda>source flags. Some source), test = (\<lambda>re content. True)\<rparr>
     (addPattern predefinedPatterns \<lparr>type = ''BROKEN'', regex = ''/a/gg'', severity = Low\<rparr>)
     ''<div class=captcha>Verify</div>'' = Inl SyntaxError
   \<and> mlAnalyze \<lparr>compile = (\<lambda>source flags. Some source), test = (\<lambda>re content. True)\<rparr>
       (addPattern predefinedPatterns \<lparr>type = ''BROKEN'', regex = ''/a/gg'', severity = Low\<rparr>)
       ''<div class=captcha>Verify</div>'' = predefinedPatterns"
proof -
  have "mlAnalyze \<lparr>compile = (\<lambda>source flags. Some source), test = (\<lambda>re content. True)\<rparr>
          predefinedPatterns ''<div class=captcha>Verify</div>'' = predefinedPatterns"
    by (simp add: mlAnalyze_def predefinedPatterns_def matchRule_def lineTerminator_def
        newRegExp_def)
  then show ?thesis
    using analyze_aborts_on_broken_rule
      [of "\<lparr>compile = (\<lambda>source flags. Some source), test = (\<lambda>re content. True)\<rparr>"
          "''<div class=captcha>Verify</div>''"]
    by simp
qed

section \<open>Properties of verifyClick\<close>

text \<open>
  C7, as stated, fails in its last part: two snapshots can be deep-equal (the same keys with
  the same values) and still serialise differently, because \<^verbatim>\<open>JSON.stringify\<close> writes the
  properties in enumeration order. For \<^verbatim>\<open>{a: "1", b: "2"}\<close> and \<^verbatim>\<open>{b: "2", a: "1"}\<close> the
  \<^verbatim>\<open>url\<close> fields are equal (both undefined), and verifyClick returns verified = true with
  confidence 1.
\<close>

theorem verifyClick_deep_equal_counterexample:
  "map_of [(''a'', ''1''), (''b'', ''2'')] = map_of [(''b'', ''2''), (''a'', ''1'')] \<and>
   verifyClick flatSnapshots [(''a'', ''1''), (''b'', ''2'')] [(''b'', ''2''), (''a'', ''1'')]
     = Inr \<lparr>before_state = [(''a'', ''1''), (''b'', ''2'')],
            after_state = [(''b'', ''2''), (''a'', ''1'')],
            verified = True, confidence = 1\<rparr>"
  by (auto simp add: verifyClick_def flatSnapshots_def flatStringify_def jsonQuote_def
      jsonEscape_def fun_eq_iff)

text \<open>
  C7, amended: verifyClick throws a TypeError when the \<^verbatim>\<open>url\<close> fields differ under \<^verbatim>\<open>!==\<close> and
  one of them cannot be converted to a string for the log line, or when \<^verbatim>\<open>JSON.stringify\<close>
  refuses one of the snapshots. In every other case it returns verified = true if the \<^verbatim>\<open>url\<close>
  fields differ under \<^verbatim>\<open>!==\<close>, else true if the two serialisations differ, else false, with
  confidence 1 when verified and 0 otherwise. So snapshots with strictly equal \<^verbatim>\<open>url\<close> fields
  and identical serialisations give verified = false and confidence 0. (The last instance
  below is a pair of snapshots \<^verbatim>\<open>{url: Symbol()}\<close>: two symbols differ, a symbol has no string
  conversion, and \<^verbatim>\<open>JSON.stringify\<close> leaves a symbol-valued property out.)
\<close>

theorem verifyClick_url_then_serialization:
  "verifyClick ops beforeSnap afterSnap =
     (if strictNotEqual ops (url ops beforeSnap) (url ops afterSnap)
         \<and> (templateString ops (url ops beforeSnap) = None
            \<or> templateString ops (url ops afterSnap) = None)
      then Inl TypeError
      else if stringify ops beforeSnap = None \<or> stringify ops afterSnap = None
      then Inl TypeError
      else Inr \<lparr>before_state = beforeSnap, after_state = afterSnap,
                verified = (strictNotEqual ops (url ops beforeSnap) (url ops afterSnap)
                            \<or> stringify ops beforeSnap \<noteq> stringify ops afterSnap),
                confidence = (if strictNotEqual ops (url ops beforeSnap) (url ops afterSnap)
                                 \<or> stringify ops beforeSnap \<noteq> stringify ops afterSnap
                              then 1 else 0)\<rparr>)"
  by (auto simp add: verifyClick_def split: option.splits)

theorem verifyClick_url_then_serialization_witness:
  "verifyClick flatSnapshots [(''url'', ''a'')] [(''url'', ''b'')]
     = Inr \<lparr>before_state = [(''url'', ''a'')], after_state = [(''url'', ''b'')],
            verified = True, confidence = 1\<rparr>
   \<and> verifyClick flatSnapshots [(''url'', ''a''), (''title'', ''t'')]
         [(''url'', ''a''), (''title'', ''t'')]
     = Inr \<lparr>before_state = [(''url'', ''a''), (''title'', ''t'')],
            after_state = [(''url'', ''a''), (''title'', ''t'')],
            verified = False, confidence = 0\<rparr>
   \<and> verifyClick flatSnapshots [(''url'', ''a''), (''title'', ''t'')]
         [(''url'', ''a''), (''title'', ''u'')]
     = Inr \<lparr>before_state = [(''url'', ''a''), (''title'', ''t'')],
            after_state = [(''url'', ''a''), (''title'', ''u'')],
            verified = True, confidence = 1\<rparr>
   \<and> verifyClick
         \<lparr>url = (\<lambda>symbol :: nat. symbol), strictNotEqual = (\<lambda>a b. a \<noteq> b),
          templateString = (\<lambda>symbol. None), stringify = (\<lambda>symbol. Some ''{}'')\<rparr> 1 2
     = Inl TypeError"
  using verifyClick_url_then_serialization
          [of "\<lparr>url = (\<lambda>symbol :: nat. symbol), strictNotEqual = (\<lambda>a b. a \<noteq> b),
                templateString = (\<lambda>symbol. None), stringify = (\<lambda>symbol. Some ''{}'')\<rparr>" 1 2]
        verifyClick_url_then_serialization
          [of flatSnapshots "[(''url'', ''a'')]" "[(''url'', ''b'')]"]
        verifyClick_url_then_serialization
          [of flatSnapshots "[(''url'', ''a''), (''title'', ''t'')]"
              "[(''url'', ''a''), (''title'', ''t'')]"]
        verifyClick_url_then_serialization
          [of flatSnapshots "[(''url'', ''a''), (''title'', ''t'')]"
              "[(''url'', ''a''), (''title'', ''u'')]"]
  by (simp add: flatSnapshots_def flatStringify_def jsonQuote_def jsonEscape_def)

section \<open>Properties of analyzeWithML\<close>

lemma fold_severityWeight:
  "fold (\<lambda>pattern score. score + severityWeight (severity pattern)) patterns acc
     = acc + sum_list (map (\<lambda>p. severityWeight (severity p)) patterns)"
  by (induction patterns arbitrary: acc) auto

lemma analyzeRegex_sum:
  "analyzeRegex eng patterns page_content
     = min 100 (sum_list (map (\<lambda>p. severityWeight (severity p))
                            (mlAnalyze eng patterns page_content)))"
  by (simp add: analyzeRegex_def fold_severityWeight Let_def)

text \<open>In the ready phase the three models are there: no method clears them.\<close>

lemma ready_models:
  "hunterReachable h \<Longrightarrow> mlEnabled h \<Longrightarrow>
     cnnModel h \<noteq> None \<and> lstmModel h \<noteq> None \<and> ensemble h \<noteq> None"
  by (induction rule: hunterReachable.induct)
     (auto simp add: newMLDeceptionHunter_def initializeML_def mlAddPattern_def dispose_def
           split: if_splits)

text \<open>
  C8: for a hunter in the ready phase, analyzeWithML returns a result whose matched patterns
  are the registered patterns whose rule parses, compiles and matches the content, in
  registration order; whose regex_score is the sum over them of 10 for low, 20 for medium and
  30 for high, capped at 100; whose final_score is regex_score*0.40 + mlProbability*100*0.60
  for the probability the ensemble's meta-learner gives for the CNN score, the LSTM score and
  regex_score/100; whose confidence is min(1, final_score/100) and whose verdict is
  getVerdict(confidence). The content is always vectorised; the interaction history is
  vectorised and scored only when it is not empty, and the LSTM score is 0 otherwise. Before
  initializeML (or after dispose) the call fails.
\<close>

theorem analyzeWithML_ready:
  fixes h :: "('cv, 'sv) MLDeceptionHunter" and prep :: "('i, 'cv, 'sv) Preprocessing"
  assumes "hunterReachable h"
  shows "(mlEnabled h \<longrightarrow>
     (\<exists>cnn lstm ens matched regexScore cnnScore lstmScore mlProbability finalScore.
        cnnModel h = Some cnn \<and> lstmModel h = Some lstm \<and> ensemble h = Some ens \<and>
        matched = filter (\<lambda>pattern.
                     case matchRule ''gimuy'' False (regex pattern) of
                       None \<Rightarrow> False
                     | Some (source, flags) \<Rightarrow>
                         (case newRegExp eng source flags of
                            None \<Rightarrow> False
                          | Some re \<Rightarrow> test eng re page_content))
                   (baseHunterPatterns h) \<and>
        regexScore = min 100 (sum_list (map (\<lambda>pattern.
                        case severity pattern of Low \<Rightarrow> 10 | Medium \<Rightarrow> 20 | High \<Rightarrow> 30)
                      matched)) \<and>
        cnnScore = cnn (preprocessContent prep page_content) \<and>
        lstmScore = (if interaction_history = [] then 0
                     else lstm (sequenceFromInteractions prep interaction_history)) \<and>
        mlProbability = ens cnnScore lstmScore (regexScore / 100) \<and>
        finalScore = regexScore * 0.40 + mlProbability * 100 * 0.60 \<and>
        analyzeWithML eng prep h page_content interaction_history =
          Inr (\<lparr>regex_score = regexScore, ml_score = mlProbability * 100,
                final_score = finalScore, ml_confidence = min 1 (finalScore / 100),
                verdict = getVerdict (min 1 (finalScore / 100)),
                matched_patterns = matched, cnn_score = cnnScore * 100,
                lstm_score = lstmScore * 100\<rparr>,
               if interaction_history = [] then [PreprocessContent page_content]
               else [PreprocessContent page_content,
                     SequenceFromInteractions interaction_history]))) \<and>
   (\<not> mlEnabled h \<longrightarrow>
      analyzeWithML eng prep h page_content interaction_history = Inl MLNotInitialized)"
proof (cases "mlEnabled h")
  case False
  then show ?thesis by (simp add: analyzeWithML_def)
next
  case True
  with ready_models [OF assms(1)] obtain cnn lstm ens where
    m: "cnnModel h = Some cnn" "lstmModel h = Some lstm" "ensemble h = Some ens" by auto
  have w: "(\<lambda>p. severityWeight (severity p))
         = (\<lambda>pattern. case severity pattern of Low \<Rightarrow> 10 | Medium \<Rightarrow> 20 | High \<Rightarrow> 30)"
    by (rule ext) (simp split: severity.split)
  have f: "mlAnalyze eng (baseHunterPatterns h) page_content
     = filter (\<lambda>pattern.
                 case matchRule ''gimuy'' False (regex pattern) of
                   None \<Rightarrow> False
                 | Some (source, flags) \<Rightarrow>
                     (case newRegExp eng source flags of
                        None \<Rightarrow> False
                      | Some re \<Rightarrow> test eng re page_content))
               (baseHunterPatterns h)"
    by (simp add: mlAnalyze_filter mlRuleMatches_def [abs_def])
  show ?thesis
    using True m
    by (simp add: analyzeWithML_def analyzeRegex_sum Let_def ensemblePredict_def w f)
qed

text \<open>Two scans of the predefined patterns on the literal engine.\<close>

lemma literal_scan:
  "filter (\<lambda>pattern.
       case matchRule ''gimuy'' False (regex pattern) of
         None \<Rightarrow> False
       | Some (source, flags) \<Rightarrow>
           (case newRegExp literalEngine source flags of
              None \<Rightarrow> False
            | Some re \<Rightarrow> test literalEngine re ''<div class=recaptcha>Verify</div>''))
     predefinedPatterns
   = [\<lparr>type = ''CAPTCHA'', regex = ''/captcha|recaptcha|challenge|verification/i'', severity = High\<rparr>]"
  "filter (\<lambda>pattern.
       case matchRule ''gimuy'' False (regex pattern) of
         None \<Rightarrow> False
       | Some (source, flags) \<Rightarrow>
           (case newRegExp literalEngine source flags of
              None \<Rightarrow> False
            | Some re \<Rightarrow> test literalEngine re ''<input type=hidden class=TRAP>''))
     predefinedPatterns
   = [\<lparr>type = ''HONEYPOT'', regex = ''/honeypot|trap|decoy|fake/i'', severity = Medium\<rparr>,
      \<lparr>type = ''FAKE_ELEMENT'', regex = ''/hidden|invisible|opacity-0|pointer-events-none/i'',
        severity = Medium\<rparr>]"
  by code_simp+

theorem analyzeWithML_ready_witness:
  "hunterReachable
     (initializeML \<lparr>createdCNN = (\<lambda>v. 1/2), createdLSTM = (\<lambda>v. 1/4),
                    createdEnsemble = (\<lambda>a b c. a + b + c / 3)\<rparr>
        (newMLDeceptionHunter :: (unit, unit) MLDeceptionHunter))
   \<and> analyzeWithML literalEngine
        \<lparr>preprocessContent = (\<lambda>c. ()), sequenceFromInteractions = (\<lambda>i. ())\<rparr>
        (initializeML \<lparr>createdCNN = (\<lambda>v. 1/2), createdLSTM = (\<lambda>v. 1/4),
                       createdEnsemble = (\<lambda>a b c. a + b + c / 3)\<rparr>
           (newMLDeceptionHunter :: (unit, unit) MLDeceptionHunter))
        ''<div class=recaptcha>Verify</div>'' [()]
      = Inr (\<lparr>regex_score = 30, ml_score = 85, final_score = 63, ml_confidence = 63/100,
              verdict = MEDIUM,
              matched_patterns =
                [\<lparr>type = ''CAPTCHA'', regex = ''/captcha|recaptcha|challenge|verification/i'',
                  severity = High\<rparr>],
              cnn_score = 50, lstm_score = 25\<rparr>,
             [PreprocessContent ''<div class=recaptcha>Verify</div>'',
              SequenceFromInteractions [()]])
   \<and> analyzeWithML literalEngine
        \<lparr>preprocessContent = (\<lambda>c. ()), sequenceFromInteractions = (\<lambda>i. ())\<rparr>
        (initializeML \<lparr>createdCNN = (\<lambda>v. 1/2), createdLSTM = (\<lambda>v. 1/4),
                       createdEnsemble = (\<lambda>a b c. a + b + c / 3)\<rparr>
           (newMLDeceptionHunter :: (unit, unit) MLDeceptionHunter))
        ''<input type=hidden class=TRAP>'' ([] :: unit list)
      = Inr (\<lparr>regex_score = 40, ml_score = 190/3, final_score = 54, ml_confidence = 54/100,
              verdict = MEDIUM,
              matched_patterns =
                [\<lparr>type = ''HONEYPOT'', regex = ''/honeypot|trap|decoy|fake/i'', severity = Medium\<rparr>,
                 \<lparr>type = ''FAKE_ELEMENT'',
                  regex = ''/hidden|invisible|opacity-0|pointer-events-none/i'',
                  severity = Medium\<rparr>],
              cnn_score = 50, lstm_score = 0\<rparr>,
             [PreprocessContent ''<input type=hidden class=TRAP>''])
   \<and> analyzeWithML literalEngine
        \<lparr>preprocessContent = (\<lambda>c. ()), sequenceFromInteractions = (\<lambda>i. ())\<rparr>
        (newMLDeceptionHunter :: (unit, unit) MLDeceptionHunter)
        ''<div class=recaptcha>Verify</div>'' [()]
      = Inl MLNotInitialized"
proof -
  let ?models = "\<lparr>createdCNN = (\<lambda>v::unit. 1/2), createdLSTM = (\<lambda>v::unit. 1/4),
                   createdEnsemble = (\<lambda>a b c. a + b + c / 3)\<rparr>"
  let ?prep = "\<lparr>preprocessContent = (\<lambda>c. ()), sequenceFromInteractions = (\<lambda>i. ())\<rparr>
                :: (unit, unit, unit) Preprocessing"
  have r0: "hunterReachable (newMLDeceptionHunter :: (unit, unit) MLDeceptionHunter)"
    by (rule hunterReachable.constructed)
  have r1: "hunterReachable (initializeML ?models newMLDeceptionHunter)"
    by (rule hunterReachable.initialized [OF r0])
  have p: "baseHunterPatterns (initializeML ?models newMLDeceptionHunter) = predefinedPatterns"
     "mlEnabled (initializeML ?models newMLDeceptionHunter)"
     "cnnModel (initializeML ?models newMLDeceptionHunter) = Some (\<lambda>v. 1/2)"
     "lstmModel (initializeML ?models newMLDeceptionHunter) = Some (\<lambda>v. 1/4)"
     "ensemble (initializeML ?models newMLDeceptionHunter) = Some (\<lambda>a b c. a + b + c / 3)"
     "\<not> mlEnabled (newMLDeceptionHunter :: (unit, unit) MLDeceptionHunter)"
    by (simp_all add: initializeML_def newMLDeceptionHunter_def)
  show ?thesis
    using r1
      analyzeWithML_ready [OF r1, of literalEngine "''<div class=recaptcha>Verify</div>''" ?prep "[()]"]
      analyzeWithML_ready [OF r1, of literalEngine "''<input type=hidden class=TRAP>''" ?prep "[]"]
      analyzeWithML_ready [OF r0, of literalEngine "''<div class=recaptcha>Verify</div>''" ?prep "[()]"]
    by (simp add: getVerdict_def initializeML_def newMLDeceptionHunter_def literal_scan)
qed


section \<open>Properties of the vocabulary\<close>

lemma map_of_mapSet: "map_of (mapSet m k v) = (map_of m)(k \<mapsto> v)"
  by (induction m k v rule: mapSet.induct) (auto simp add: fun_eq_iff)

lemma mapSet_fresh: "\<not> mapHas m k \<Longrightarrow> mapSet m k v = m @ [(k, v)]"
  by (induction m k v rule: mapSet.induct) (auto simp add: mapHas_def)

text \<open>The constructor's vocabulary is the same for every capacity.\<close>

lemma default_vocab:
  "vocab (newMLPreprocessor unicodeLower n s) =
     [(''captcha'', 1), (''recaptcha'', 2), (''challenge'', 3), (''verification'', 4),
      (''verify'', 5), (''honeypot'', 6), (''trap'', 7), (''decoy'', 8), (''fake'', 9),
      (''hidden'', 10), (''invisible'', 11), (''phishing'', 12), (''spoof'', 13),
      (''clone'', 14), (''login'', 15), (''submit'', 16), (''click'', 17), (''button'', 18),
      (''form'', 19), (''input'', 20), (''password'', 21), (''username'', 22), (''email'', 23),
      (''suspicious'', 24), (''warning'', 25), (''danger'', 26), (''alert'', 27),
      (''error'', 28), (''script'', 29), (''redirect'', 30), (''popup'', 31),
      (''overlay'', 32), (''modal'', 33)]"
  by (simp add: newMLPreprocessor_def initializeDefaultVocab_def commonTokens_def
      toLowerCase_def toLowerChar_def isAscii_def)

lemma default_vocabSize: "vocabSize (newMLPreprocessor unicodeLower n s) = n"
  by (simp add: newMLPreprocessor_def initializeDefaultVocab_def)

text \<open>
  C10 fails at construction: \<^verbatim>\<open>new MLPreprocessor(10, 100)\<close> holds 33 entries for a capacity
  of 10, and the token \<^verbatim>\<open>modal\<close> has index 33. The seeding loop never looks at the capacity,
  which only \<^verbatim>\<open>addTokens\<close> tests.
\<close>

theorem newMLPreprocessor_exceeds_capacity:
  "vocabSize (newMLPreprocessor unicodeLower 10 100) = 10 \<and>
   mapSize (getVocab (newMLPreprocessor unicodeLower 10 100)) = 33 \<and>
   map_of (getVocab (newMLPreprocessor unicodeLower 10 100)) ''modal'' = Some 33 \<and>
   \<not> vocabWithinCapacity (newMLPreprocessor unicodeLower 10 100)"
  by (simp add: getVocab_def default_vocab default_vocabSize mapSize_def
      vocabWithinCapacity_def)

text \<open>
  What \<^verbatim>\<open>addTokens\<close> does is as the claim says: a token offered to a full vocabulary, or
  present in lower case, changes nothing; no call changes a mapping that exists; and a
  vocabulary within its capacity stays so. From a capacity of 33 on, the constructor's
  vocabulary is within capacity, and so is every vocabulary reached from it.
\<close>

lemma addToken_ignored:
  "vocabSize p \<le> mapSize (vocab p) \<or> mapHas (vocab p) (toLowerCase unicodeLower token)
     \<Longrightarrow> addToken unicodeLower p token = p"
  by (auto simp add: addToken_def Let_def)

lemma addToken_keeps:
  "map_of (vocab p) k = Some i \<Longrightarrow> map_of (vocab (addToken unicodeLower p token)) k = Some i"
  by (auto simp add: addToken_def Let_def map_of_mapSet mapHas_def)

lemma addToken_within:
  "vocabWithinCapacity p \<Longrightarrow> vocabWithinCapacity (addToken unicodeLower p token)"
  by (auto simp add: addToken_def Let_def vocabWithinCapacity_def mapSize_def mapSet_fresh)

lemma addTokens_keeps:
  "map_of (vocab p) k = Some i \<Longrightarrow> map_of (vocab (addTokens unicodeLower p tokens)) k = Some i"
  unfolding addTokens_def
  by (induction tokens arbitrary: p) (auto simp add: addToken_keeps)

lemma addTokens_within:
  "vocabWithinCapacity p \<Longrightarrow> vocabWithinCapacity (addTokens unicodeLower p tokens)"
  unfolding addTokens_def
  by (induction tokens arbitrary: p) (auto simp add: addToken_within)

lemma newMLPreprocessor_within:
  "33 \<le> n \<Longrightarrow> vocabWithinCapacity (newMLPreprocessor unicodeLower n s)"
  by (simp add: vocabWithinCapacity_def default_vocab default_vocabSize mapSize_def)

text \<open>
  Two spellings of one token make one entry: \<^verbatim>\<open>addTokens(['Foo', 'FOO', 'foo'])\<close> adds
  \<^verbatim>\<open>foo\<close> once, with index 34.
\<close>

lemma toLowerCase_foo:
  "toLowerCase unicodeLower ''Foo'' = ''foo''"
  "toLowerCase unicodeLower ''FOO'' = ''foo''"
  "toLowerCase unicodeLower ''foo'' = ''foo''"
  by code_simp+

lemma addTokens_folds_case:
  "vocab (addTokens unicodeLower (newMLPreprocessor unicodeLower 1000 100) [''Foo'', ''FOO'', ''foo''])
     = vocab (newMLPreprocessor unicodeLower 1000 100) @ [(''foo'', 34)]"
  by (simp add: addTokens_def addToken_def default_vocab default_vocabSize mapSize_def
      mapHas_def toLowerCase_foo)

section \<open>Properties of StateMachine\<close>

lemmas machine_defs =
  setState_def transition_def reset_def newStateMachine_def getState_def getHistory_def
  allocState_def allocData_def allocArray_def push_def Let_def

lemmas machine_eval =
  machine_defs objectPrototypeProperties_def emptyHeap_def currentState_def historyStates_def
  run_def
  interactionConfig_def interactionMachine_def observedCurrent_def observedHistory_def
  readState_def writeData_def writeState_def writeArray_def

subsection \<open>The invariant\<close>

lemma wellFormed_new: "wellFormed (newStateMachine config newId now h)"
  by (simp add: machine_defs wellFormed_def nth_append)

lemma wellFormed_step: "wellFormed w \<Longrightarrow> wellFormed (step w c)"
proof -
  assume wf: "wellFormed w"
  obtain h m where w: "w = (h, m)" by (cases w)
  obtain k newId now where c: "c = (k, newId, now)" by (cases c)
  show ?thesis
  proof (cases k)
    case (SetState n d)
    with wf w c show ?thesis
      by (auto simp add: machine_defs wellFormed_def nth_append list_all_iff split: option.splits)
  next
    case (Transition n d)
    with wf w c show ?thesis
      by (auto simp add: machine_defs wellFormed_def nth_append list_all_iff split: option.splits)
  next
    case Reset
    with wf w c show ?thesis
      by (auto simp add: machine_defs wellFormed_def nth_append list_all_iff split: option.splits)
  qed
qed

lemma wellFormed_run: "wellFormed w \<Longrightarrow> wellFormed (run w calls)"
  unfolding run_def by (induction calls arbitrary: w) (auto simp add: wellFormed_step)

lemma machineInv_new:
  "machineInv config (length (dataObjects h)) (newStateMachine config newId now h)"
  by (simp add: machine_defs machineInv_def wellFormed_def historyStates_def currentState_def
      nth_append)

lemma machineInv_step: "machineInv config d0 w \<Longrightarrow> machineInv config d0 (step w c)"
proof -
  assume inv: "machineInv config d0 w"
  obtain h m where w: "w = (h, m)" by (cases w)
  obtain k newId now where c: "c = (k, newId, now)" by (cases c)
  show ?thesis
  proof (cases k)
    case (SetState n d)
    with inv w c show ?thesis
      by (auto simp add: machine_defs machineInv_def wellFormed_def historyStates_def
          currentState_def nth_append list_all_iff neq_Nil_conv split: option.splits)
  next
    case (Transition n d)
    with inv w c show ?thesis
      by (auto simp add: machine_defs machineInv_def wellFormed_def historyStates_def
          currentState_def nth_append list_all_iff neq_Nil_conv split: option.splits)
  next
    case Reset
    with inv w c show ?thesis
      by (auto simp add: machine_defs machineInv_def wellFormed_def historyStates_def
          currentState_def nth_append list_all_iff neq_Nil_conv split: option.splits)
  qed
qed

lemma machineInv_run: "machineInv config d0 w \<Longrightarrow> machineInv config d0 (run w calls)"
  unfolding run_def by (induction calls arbitrary: w) (auto simp add: machineInv_step)

lemma machineInv_wellFormed: "machineInv config d0 w \<Longrightarrow> wellFormed w"
  by (simp add: machineInv_def)

subsection \<open>The length of the history\<close>

lemma length_history_step:
  "wellFormed w \<Longrightarrow> length (historyStates (step w c)) =
     (if fst c = Reset then 1
      else if succeeds w c then Suc (length (historyStates w))
      else length (historyStates w))"
proof -
  assume wf: "wellFormed w"
  obtain h m where w: "w = (h, m)" by (cases w)
  obtain k newId now where c: "c = (k, newId, now)" by (cases c)
  show ?thesis
  proof (cases k)
    case (SetState n d)
    with wf w c show ?thesis
      by (auto simp add: machine_defs wellFormed_def historyStates_def split: option.splits)
  next
    case (Transition n d)
    with wf w c show ?thesis
      by (auto simp add: machine_defs wellFormed_def historyStates_def split: option.splits)
  next
    case Reset
    with wf w c show ?thesis
      by (auto simp add: machine_defs wellFormed_def historyStates_def split: option.splits)
  qed
qed

lemma length_history_run:
  "wellFormed w \<Longrightarrow> length (historyStates w) = Suc n \<Longrightarrow>
     length (historyStates (run w calls)) = Suc (successfulChanges w n calls)"
proof (induction calls arbitrary: w n)
  case Nil
  then show ?case by (simp add: run_def)
next
  case (Cons c calls)
  have wf': "wellFormed (step w c)" by (rule wellFormed_step [OF Cons.prems(1)])
  have len: "length (historyStates (step w c))
      = Suc (if fst c = Reset then 0 else if succeeds w c then Suc n else n)"
    using length_history_step [OF Cons.prems(1), of c] Cons.prems(2) by simp
  have "run w (c # calls) = run (step w c) calls" by (simp add: run_def)
  then show ?case using Cons.IH [OF wf' len] by simp
qed

lemma length_history_new:
  "length (historyStates (newStateMachine config newId now h)) = Suc 0"
  by (simp add: machine_defs historyStates_def)

subsection \<open>When the calls succeed\<close>

text \<open>
  C3, as stated, fails for \<^verbatim>\<open>transition\<close>: a target listed in the table but missing from the
  states set passes the table check and is then refused by \<^verbatim>\<open>setState\<close>. For the configuration
  \<^verbatim>\<open>{initialState: 'IDLE', states: ['IDLE'], transitions: {IDLE: ['GHOST']}}\<close>, GHOST is a member
  of \<^verbatim>\<open>transitions[current.name]\<close> and \<^verbatim>\<open>transition('GHOST')\<close> throws "Invalid state name".
\<close>

theorem transition_foreign_target_counterexample:
  "''GHOST'' \<in> set (case transitions
        (snd (newStateMachine
           \<lparr>initialState = ''IDLE'', configStates = [''IDLE''],
            configTransitions = [''IDLE'' \<mapsto> [''GHOST'']]\<rparr> ''id-0'' 0 (emptyHeap :: unit heap)))
        (name (currentState (newStateMachine
           \<lparr>initialState = ''IDLE'', configStates = [''IDLE''],
            configTransitions = [''IDLE'' \<mapsto> [''GHOST'']]\<rparr> ''id-0'' 0 (emptyHeap :: unit heap))))
      of None \<Rightarrow> [] | Some a \<Rightarrow> a)
   \<and> transition
        (fst (newStateMachine
           \<lparr>initialState = ''IDLE'', configStates = [''IDLE''],
            configTransitions = [''IDLE'' \<mapsto> [''GHOST'']]\<rparr> ''id-0'' 0 (emptyHeap :: unit heap)))
        (snd (newStateMachine
           \<lparr>initialState = ''IDLE'', configStates = [''IDLE''],
            configTransitions = [''IDLE'' \<mapsto> [''GHOST'']]\<rparr> ''id-0'' 0 (emptyHeap :: unit heap)))
        ''GHOST'' None ''id-1'' 1
      = Inl (InvalidStateName ''GHOST'')"
  by (simp add: machine_defs objectPrototypeProperties_def emptyHeap_def currentState_def)

text \<open>
  C3, amended: in every machine state, \<^verbatim>\<open>transition(to)\<close> succeeds iff \<open>to\<close> is a member of
  \<^verbatim>\<open>transitions[current.name]\<close> (an absent entry meaning no outgoing transitions) and a member
  of the states set; \<^verbatim>\<open>setState(s)\<close> succeeds iff \<open>s\<close> is a member of the states set.
\<close>

theorem transition_setState_succeed_iff:
  "((\<exists>r. transition h m to metadata newId now = Inr r)
      = (to \<in> set (case transitions m (name (currentState (h, m))) of
                     None \<Rightarrow> [] | Some a \<Rightarrow> a)
         \<and> to \<in> set (states m)))
   \<and> ((\<exists>r. setState h m name' dataArg newId' now' = Inr r) = (name' \<in> set (states m)))"
  by (auto simp add: machine_defs currentState_def split: option.splits prod.splits)

theorem transition_setState_succeed_iff_witness:
  "(\<exists>r. transition (fst interactionMachine) (snd interactionMachine)
           ''PENDING'' None ''id-1'' 1 = Inr r)
   \<and> (\<nexists>r. transition (fst interactionMachine) (snd interactionMachine)
           ''VERIFIED'' None ''id-1'' 1 = Inr r)
   \<and> (\<exists>r. setState (fst interactionMachine) (snd interactionMachine)
           ''VERIFIED'' None ''id-1'' 1 = Inr r)
   \<and> (\<nexists>r. setState (fst interactionMachine) (snd interactionMachine)
           ''INVALID'' None ''id-1'' 1 = Inr r)"
  using transition_setState_succeed_iff
          [of "fst interactionMachine" "snd interactionMachine"
              "''PENDING''" None "''id-1''" 1 "''VERIFIED''" None "''id-1''" 1]
        transition_setState_succeed_iff
          [of "fst interactionMachine" "snd interactionMachine"
              "''VERIFIED''" None "''id-1''" 1 "''INVALID''" None "''id-1''" 1]
  by (simp add: machine_eval)

subsection \<open>The current name and the states set\<close>

text \<open>
  C4 fails at construction: the constructor sets the current name to \<^verbatim>\<open>config.initialState\<close>
  without the test against the states set that \<^verbatim>\<open>setState\<close> makes. The configuration
  \<^verbatim>\<open>{initialState: 'X', states: ['A'], transitions: {}}\<close> is accepted; right after construction
  the current name X is not in the states set, and \<^verbatim>\<open>setState('X')\<close> on that very machine is
  refused as an invalid state name.
\<close>

theorem constructor_accepts_foreign_initial_state:
  "name (currentState (newStateMachine
       \<lparr>initialState = ''X'', configStates = [''A''], configTransitions = Map.empty\<rparr>
       ''id-0'' 0 (emptyHeap :: unit heap))) = ''X''
   \<and> ''X'' \<notin> set (states (snd (newStateMachine
       \<lparr>initialState = ''X'', configStates = [''A''], configTransitions = Map.empty\<rparr>
       ''id-0'' 0 (emptyHeap :: unit heap))))
   \<and> setState
        (fst (newStateMachine
           \<lparr>initialState = ''X'', configStates = [''A''], configTransitions = Map.empty\<rparr>
           ''id-0'' 0 (emptyHeap :: unit heap)))
        (snd (newStateMachine
           \<lparr>initialState = ''X'', configStates = [''A''], configTransitions = Map.empty\<rparr>
           ''id-0'' 0 (emptyHeap :: unit heap)))
        ''X'' None ''id-1'' 1
      = Inl (InvalidStateName ''X'')"
  by (simp add: machine_defs emptyHeap_def currentState_def)

text \<open>
  Where the initial state is a member of the states set, the current name is a member of the
  states set after every sequence of setState, transition and reset calls on a machine that
  only these calls change.
\<close>

lemma current_name_in_states:
  assumes "initialState config \<in> set (configStates config)"
  shows "name (currentState (run (newStateMachine config newId now h) calls))
           \<in> set (states (snd (run (newStateMachine config newId now h) calls)))
         \<and> states (snd (run (newStateMachine config newId now h) calls)) = configStates config"
  using machineInv_run [OF machineInv_new [of config h newId now], of calls] assms
  by (auto simp add: machineInv_def)

subsection \<open>What getState and getHistory hand out\<close>

text \<open>
  \<^verbatim>\<open>getState()\<close> returns a new object with the fields of the current state, and \<^verbatim>\<open>getHistory()\<close>
  a new array with the elements of the history: writes to the fields of that object, and
  changes of that array in place, leave the machine's current state and history as they were.
\<close>

lemma getState_getHistory_top_level:
  assumes "wellFormed w"
  shows "(case getState (fst w) (snd w) of (h1, r) \<Rightarrow>
            stateObjects h1 ! r = currentState w \<and>
            observedCurrent (writeState h1 r s, snd w) = observedCurrent w \<and>
            observedHistory (writeState h1 r s, snd w) = observedHistory w)
       \<and> (case getHistory (fst w) (snd w) of (h2, a) \<Rightarrow>
            arrays h2 ! a = arrays (fst w) ! history (snd w) \<and>
            observedCurrent (writeArray h2 a xs, snd w) = observedCurrent w \<and>
            observedHistory (writeArray h2 a xs, snd w) = observedHistory w)"
  using assms
  by (auto simp add: machine_defs wellFormed_def currentState_def observedCurrent_def
      observedHistory_def readState_def writeState_def writeArray_def nth_append list_all_iff)

text \<open>
  C5 fails: the copies stop one level down. The elements of the array \<^verbatim>\<open>getHistory()\<close> returns
  are the machine's own history entries, not copies of them as \<^verbatim>\<open>getState()\<close> makes of the
  current state: after \<^verbatim>\<open>sm.getHistory()[0].name = 'TAMPERED'\<close> the first entry of the machine's
  history is named TAMPERED, and \<^verbatim>\<open>sm.reset()\<close> then makes TAMPERED, which is no configured
  state, the name of the current state. The data maps are shared as well:
  \<^verbatim>\<open>sm.getState().data.tampered = 'yes'\<close> writes into the data map of the machine's current state.
\<close>

theorem getHistory_hands_out_history_entries:
  "name (historyStates
      (fst (getHistory (fst interactionMachine) (snd interactionMachine)),
       snd interactionMachine) ! 0) = ''IDLE''
   \<and> name (historyStates
        (writeState (fst (getHistory (fst interactionMachine) (snd interactionMachine)))
           (arrays (fst (getHistory (fst interactionMachine) (snd interactionMachine)))
              ! snd (getHistory (fst interactionMachine) (snd interactionMachine)) ! 0)
           ((stateObjects (fst (getHistory (fst interactionMachine) (snd interactionMachine)))
              ! (arrays (fst (getHistory (fst interactionMachine) (snd interactionMachine)))
                   ! snd (getHistory (fst interactionMachine) (snd interactionMachine)) ! 0))
            \<lparr>name := ''TAMPERED''\<rparr>),
         snd interactionMachine) ! 0) = ''TAMPERED''
   \<and> name (currentState (step
        (writeState (fst (getHistory (fst interactionMachine) (snd interactionMachine)))
           (arrays (fst (getHistory (fst interactionMachine) (snd interactionMachine)))
              ! snd (getHistory (fst interactionMachine) (snd interactionMachine)) ! 0)
           ((stateObjects (fst (getHistory (fst interactionMachine) (snd interactionMachine)))
              ! (arrays (fst (getHistory (fst interactionMachine) (snd interactionMachine)))
                   ! snd (getHistory (fst interactionMachine) (snd interactionMachine)) ! 0))
            \<lparr>name := ''TAMPERED''\<rparr>),
         snd interactionMachine)
        (Reset, ''id-1'', 1))) = ''TAMPERED''
   \<and> ''TAMPERED'' \<notin> set (states (snd interactionMachine))
   \<and> snd (snd (snd (observedCurrent
        (fst (getState (fst interactionMachine) (snd interactionMachine)),
         snd interactionMachine)))) ''tampered'' = None
   \<and> snd (snd (snd (observedCurrent
        (writeData (fst (getState (fst interactionMachine) (snd interactionMachine)))
           (data (stateObjects (fst (getState (fst interactionMachine) (snd interactionMachine)))
                    ! snd (getState (fst interactionMachine) (snd interactionMachine))))
           ''tampered'' ''yes'',
         snd interactionMachine)))) ''tampered'' = Some ''yes''"
  by (simp add: machine_eval)

subsection \<open>The history\<close>

lemma successfulChanges_no_reset:
  "Reset \<notin> fst ` set calls \<Longrightarrow> successfulChanges w n calls = n + successfulCalls w calls"
  by (induction calls arbitrary: w n) auto

text \<open>
  C6, as stated, fails in its count: the successful calls made before a reset are no longer in
  the history. After \<^verbatim>\<open>transition('PENDING')\<close> and \<^verbatim>\<open>reset()\<close> there has been N = 1 successful
  call since construction, and the history has length 1, not 2.
\<close>

theorem history_length_after_reset_counterexample:
  "successfulCalls interactionMachine
      [(Transition ''PENDING'' None, ''id-1'', 1), (Reset, ''id-2'', 2)] = 1
   \<and> length (historyStates (run interactionMachine
      [(Transition ''PENDING'' None, ''id-1'', 1), (Reset, ''id-2'', 2)])) = 1"
  by (simp add: machine_eval)

text \<open>
  C6, amended: for a machine built by the constructor and changed by setState, transition and
  reset calls only, the history has length N + 1, where N is the number of successful setState
  and transition calls since the last reset or, in a sequence without reset, since
  construction; the first history entry keeps the initial name and the data object the
  constructor made, with its contents (a reset renews only its identifier and timestamp); and
  a reset leaves a history of exactly one entry and a current state named as the configured
  initial state.
\<close>

theorem history_length_and_first_entry:
  "length (historyStates (run (newStateMachine config newId now h) calls))
     = successfulChanges (newStateMachine config newId now h) 0 calls + 1
   \<and> (Reset \<notin> fst ` set calls \<longrightarrow>
        length (historyStates (run (newStateMachine config newId now h) calls))
          = successfulCalls (newStateMachine config newId now h) calls + 1)
   \<and> name (historyStates (run (newStateMachine config newId now h) calls) ! 0)
       = initialState config
   \<and> data (historyStates (run (newStateMachine config newId now h) calls) ! 0)
       = data (historyStates (newStateMachine config newId now h) ! 0)
   \<and> dataObjects (fst (run (newStateMachine config newId now h) calls))
         ! data (historyStates (run (newStateMachine config newId now h) calls) ! 0)
       = dataObjects (fst (newStateMachine config newId now h))
         ! data (historyStates (newStateMachine config newId now h) ! 0)
   \<and> length (historyStates
        (step (run (newStateMachine config newId now h) calls) (Reset, newId', now'))) = 1
   \<and> name (currentState
        (step (run (newStateMachine config newId now h) calls) (Reset, newId', now')))
       = initialState config"
proof -
  define w0 where "w0 = newStateMachine config newId now h"
  define w where "w = run w0 calls"
  have i0: "machineInv config (length (dataObjects h)) w0"
    unfolding w0_def by (rule machineInv_new)
  have i: "machineInv config (length (dataObjects h)) w"
    unfolding w_def by (rule machineInv_run [OF i0])
  have 1: "length (historyStates w) = successfulChanges w0 0 calls + 1"
    unfolding w_def w0_def
    using length_history_run [OF wellFormed_new length_history_new] by simp
  have 2: "name (historyStates w ! 0) = initialState config"
    using i by (simp add: machineInv_def)
  have 3: "data (historyStates w ! 0) = data (historyStates w0 ! 0)"
    using i i0 by (simp add: machineInv_def)
  have 4: "dataObjects (fst w) ! data (historyStates w ! 0)
             = dataObjects (fst w0) ! data (historyStates w0 ! 0)"
    using i i0 by (simp add: machineInv_def)
  have 5: "length (historyStates (step w (Reset, newId', now'))) = 1"
    using length_history_step [OF machineInv_wellFormed [OF i], of "(Reset, newId', now')"]
    by simp
  have 6: "name (currentState (step w (Reset, newId', now'))) = initialState config"
    using i
    by (cases w)
       (auto simp add: machineInv_def machine_defs wellFormed_def historyStates_def
          currentState_def nth_append neq_Nil_conv)
  have 7: "Reset \<notin> fst ` set calls \<longrightarrow>
             length (historyStates w) = successfulCalls w0 calls + 1"
    using 1 successfulChanges_no_reset [of calls w0 0] by simp
  show ?thesis using 1 2 3 4 5 6 7 unfolding w_def w0_def by simp
qed

theorem history_length_and_first_entry_witness:
  "length (historyStates (run interactionMachine
      [(Transition ''PENDING'' None, ''id-1'', 1), (SetState ''X'' None, ''id-2'', 2),
       (Transition ''VERIFIED'' None, ''id-3'', 3)])) = 3
   \<and> successfulChanges interactionMachine 0
      [(Transition ''PENDING'' None, ''id-1'', 1), (SetState ''X'' None, ''id-2'', 2),
       (Transition ''VERIFIED'' None, ''id-3'', 3)] = 2
   \<and> successfulCalls interactionMachine
      [(Transition ''PENDING'' None, ''id-1'', 1), (SetState ''X'' None, ''id-2'', 2),
       (Transition ''VERIFIED'' None, ''id-3'', 3)] = 2
   \<and> name (historyStates (run interactionMachine
      [(Transition ''PENDING'' None, ''id-1'', 1), (SetState ''X'' None, ''id-2'', 2),
       (Transition ''VERIFIED'' None, ''id-3'', 3)]) ! 0) = ''IDLE''
   \<and> length (historyStates (step (run interactionMachine
      [(Transition ''PENDING'' None, ''id-1'', 1), (SetState ''X'' None, ''id-2'', 2),
       (Transition ''VERIFIED'' None, ''id-3'', 3)]) (Reset, ''id-4'', 4))) = 1
   \<and> name (currentState (step (run interactionMachine
      [(Transition ''PENDING'' None, ''id-1'', 1), (SetState ''X'' None, ''id-2'', 2),
       (Transition ''VERIFIED'' None, ''id-3'', 3)]) (Reset, ''id-4'', 4))) = ''IDLE''"
proof -
  have n: "successfulChanges interactionMachine 0
      [(Transition ''PENDING'' None, ''id-1'', 1), (SetState ''X'' None, ''id-2'', 2),
       (Transition ''VERIFIED'' None, ''id-3'', 3)] = 2"
    by (simp add: machine_eval)
  have n': "successfulCalls interactionMachine
      [(Transition ''PENDING'' None, ''id-1'', 1), (SetState ''X'' None, ''id-2'', 2),
       (Transition ''VERIFIED'' None, ''id-3'', 3)] = 2"
    by (simp add: machine_eval)
  show ?thesis
    using n n' history_length_and_first_entry
      [of interactionConfig "''id-0''" 0 "emptyHeap :: string heap"
          "[(Transition ''PENDING'' None, ''id-1'', 1), (SetState ''X'' None, ''id-2'', 2),
            (Transition ''VERIFIED'' None, ''id-3'', 3)]" "''id-4''" 4]
    by (simp add: interactionMachine_def interactionConfig_def)
qed

end
